theory Spec2Isabelle
  imports Main
begin

section \<open>Values, errors and the outside world\<close>

text \<open>
  The module \<^verbatim>\<open>chipseqpeaks.py\<close> wraps the MACS2 peak caller. Its class
  \<^verbatim>\<open>ChIPSeqPeaks\<close> is embedded as a record of its attributes, its methods as functions
  from the object and the outside world to an outcome, and every exception as a value.

  Two places of the file lack a comma between neighbouring arguments (line 150, between the
  keyword arguments of \<^verbatim>\<open>self.call_peaks(...)\<close>, and line 374, after
  \<^verbatim>\<open>blacklist_path\<close>). The embedding reads both argument lists with the comma in
  place. Everything else follows the Python semantics of the text as it stands.
\<close>

type_synonym bytes = string
type_synonym path = string
type_synonym files = "path \<rightharpoonup> bytes"

text \<open>
  The arguments \<^verbatim>\<open>treatment_bam\<close> and \<^verbatim>\<open>control_bam\<close> are dynamically typed: the
  code tests them with \<^verbatim>\<open>isinstance\<close> and for truthiness. A \<^verbatim>\<open>bytes\<close> object and a
  \<^verbatim>\<open>str\<close> are both lists of characters here, told apart by their constructor.
\<close>

datatype pyval = PyNone | PyBool bool | PyInt int | PyBytes bytes | PyStr string

fun truthy :: "pyval \<Rightarrow> bool" where
  "truthy PyNone = False"
| "truthy (PyBool b) = b"
| "truthy (PyInt i) = (i \<noteq> 0)"
| "truthy (PyBytes b) = (b \<noteq> [])"
| "truthy (PyStr s) = (s \<noteq> [])"

datatype error =
    MissingMACS2Error
  | BadInputError
  | FileNotFoundError
  | PermissionError
  | ValueError
  | TypeError
  | AttributeError

text \<open>\<^verbatim>\<open>str(n)\<close> for an integer: decimal digits, with a minus sign when negative.\<close>

definition digit_char :: "nat \<Rightarrow> char" where
  "digit_char d = ''0123456789'' ! d"

function str_nat :: "nat \<Rightarrow> string" where
  "str_nat n = (if n < 10 then [digit_char n] else str_nat (n div 10) @ [digit_char (n mod 10)])"
  by pat_completeness auto
termination
  by (relation "measure id") auto

declare str_nat.simps [simp del]

definition str_int :: "int \<Rightarrow> string" where
  "str_int i = (if i < 0 then CHR ''-'' # str_nat (nat (- i)) else str_nat (nat i))"

text \<open>
  \<^verbatim>\<open>os.path.basename\<close>: what follows the last slash. It accepts \<^verbatim>\<open>bytes\<close> and
  \<^verbatim>\<open>str\<close> alike; \<^verbatim>\<open>__init__\<close> applies it to the raw \<^verbatim>\<open>treatment_bam\<close> argument.
\<close>

definition basename :: "string \<Rightarrow> string" where
  "basename p = rev (takeWhile (\<lambda>c. c \<noteq> CHR ''/'') (rev p))"

fun py_basename :: "pyval \<Rightarrow> string" where
  "py_basename (PyBytes b) = basename b"
| "py_basename (PyStr s) = basename s"
| "py_basename _ = []"

text \<open>
  Sequence arithmetic as \<^verbatim>\<open>call_peaks\<close> uses it. \<^verbatim>\<open>('--nomodel',)\<close> is a tuple,
  \<^verbatim>\<open>('--nolambda')\<close> is a parenthesised \<^verbatim>\<open>str\<close>. A \<^verbatim>\<open>bool\<close> times a sequence
  repeats it once or not at all and keeps its type; \<^verbatim>\<open>+\<close> concatenates two tuples or
  two strings and raises \<^verbatim>\<open>TypeError\<close> on a tuple and a string.
\<close>

datatype pyseq = PyTuple "string list" | PyString string

fun seq_rep :: "bool \<Rightarrow> pyseq \<Rightarrow> pyseq" where
  "seq_rep b (PyTuple xs) = PyTuple (if b then xs else [])"
| "seq_rep b (PyString s) = PyString (if b then s else [])"

fun seq_add :: "error + pyseq \<Rightarrow> pyseq \<Rightarrow> error + pyseq" where
  "seq_add (Inl e) _ = Inl e"
| "seq_add (Inr (PyTuple xs)) (PyTuple ys) = Inr (PyTuple (xs @ ys))"
| "seq_add (Inr (PyString s)) (PyString t) = Inr (PyString (s @ t))"
| "seq_add (Inr _) _ = Inl TypeError"

text \<open>The same product on lists, as in \<^verbatim>\<open>bool(control_bam) * ['control_lambda.bdg']\<close>.\<close>

definition list_rep :: "bool \<Rightarrow> 'a list \<Rightarrow> 'a list" where
  "list_rep b xs = (if b then xs else [])"

text \<open>
  The outside world is the file system (regular files by path), the list of command lines
  run so far, and what the operating system refuses: for a path it will not let the process
  create or overwrite, and for a path it will not let it remove, the error that
  \<^verbatim>\<open>open\<close> or \<^verbatim>\<open>os.remove\<close> raises (\<^verbatim>\<open>FileNotFoundError\<close> for a missing
  directory, \<^verbatim>\<open>PermissionError\<close> for a missing right). The temporary files and
  directories of \<^verbatim>\<open>tempfile\<close> are taken to be granted.
\<close>

record world =
  files :: files
  trace :: "string list list"
  no_write :: "path \<Rightarrow> error option"
  no_remove :: "path \<Rightarrow> error option"

text \<open>
  An external program is a parameter of the model. From its command line, its standard
  input and the files it finds, either it cannot be started, and \<^verbatim>\<open>subprocess\<close> raises
  an error (\<^verbatim>\<open>FileNotFoundError\<close> where the name is no program,
  \<^verbatim>\<open>PermissionError\<close> where it may not be run, \<^verbatim>\<open>ValueError\<close> where the file given
  as \<^verbatim>\<open>stderr=self.log\<close> is closed), or it runs and gives an exit status, its standard
  output and the files it leaves. What the program writes to the log is not followed.
\<close>

record proc_result =
  status :: int
  stdout :: bytes
  files_after :: files

datatype launch = Started proc_result | Failed error

type_synonym system = "string list \<Rightarrow> bytes \<Rightarrow> files \<Rightarrow> launch"

text \<open>
  \<^verbatim>\<open>subprocess.call(argv)\<close> returns the exit status. \<^verbatim>\<open>Popen(argv).communicate(input)\<close>
  returns the standard output; the status stays in the \<^verbatim>\<open>Popen\<close> object. Both raise
  when the program cannot be started, and then nothing has run.
\<close>

definition subprocess_call :: "system \<Rightarrow> string list \<Rightarrow> world \<Rightarrow> error + int \<times> world" where
  "subprocess_call sys argv w =
     (case sys argv [] (files w) of
        Failed e \<Rightarrow> Inl e
      | Started r \<Rightarrow> Inr (status r, w\<lparr>files := files_after r, trace := trace w @ [argv]\<rparr>))"

definition communicate :: "system \<Rightarrow> string list \<Rightarrow> bytes \<Rightarrow> world \<Rightarrow> error + bytes \<times> world" where
  "communicate sys argv input w =
     (case sys argv input (files w) of
        Failed e \<Rightarrow> Inl e
      | Started r \<Rightarrow> Inr (stdout r, w\<lparr>files := files_after r, trace := trace w @ [argv]\<rparr>))"

text \<open>
  The names \<^verbatim>\<open>tempfile\<close> draws: two named temporary files, a temporary directory and
  the name of a file created in it and deleted at once. Leaving the \<^verbatim>\<open>with\<close> block
  deletes the two files and the directory with all it holds. The argument
  \<^verbatim>\<open>temp_file_dir\<close> only says where the names are drawn, so it has no field of its own.

  The code writes to the two temporary files and never flushes them before it starts the
  external program. What part of the written bytes is in the file at that moment is up to
  the buffering of the file object (CPython keeps a write that fits its buffer in memory):
  \<open>on_disk\<close> gives that part.
\<close>

record temps =
  tmp_a :: path
  tmp_b :: path
  tmp_dir :: path
  tmp_leaf :: string
  on_disk :: "bytes \<Rightarrow> bytes"

definition temp_name :: "temps \<Rightarrow> path" where
  "temp_name t = tmp_dir t @ ''/'' @ tmp_leaf t"

definition inside :: "path \<Rightarrow> path \<Rightarrow> bool" where
  "inside dir p = (take (length dir + 1) p = dir @ ''/'')"

definition release_temps :: "temps \<Rightarrow> files \<Rightarrow> files" where
  "release_temps t fs =
     (\<lambda>p. if p = tmp_a t \<or> p = tmp_b t \<or> inside (tmp_dir t) p then None else fs p)"

definition leave_with :: "temps \<Rightarrow> world \<Rightarrow> world" where
  "leave_with t w = w\<lparr>files := release_temps t (files w)\<rparr>"

section \<open>The class ChIPSeqPeaks\<close>

text \<open>
  The attributes \<^verbatim>\<open>__init__\<close> assigns are the fields of the record. The attributes
  created by name with \<^verbatim>\<open>setattr\<close> (one per output extension, and \<^verbatim>\<open>ppois_bdg\<close>) are
  the map \<open>buffers\<close>, keyed by attribute name. The two floats are carried as the text
  \<^verbatim>\<open>str\<close> gives for them, which is all the code does with them.
\<close>

record obj =
  treatment_bam :: bytes
  macs2_path :: string
  control_bam :: "bytes option"
  qvalue :: string
  nomodel :: bool
  shift :: int
  broad :: bool
  broad_cutoff :: string
  nolambda :: bool
  call_summits :: bool
  cleans_up :: bool
  cleanup_prefix :: "string option"
  log :: "path option"
  output_extensions :: "string list"
  buffers :: "string \<rightharpoonup> bytes"

datatype outcome = Returns obj world | Raises error obj world

fun obj_of :: "outcome \<Rightarrow> obj" where
  "obj_of (Returns s w) = s"
| "obj_of (Raises e s w) = s"

fun world_of :: "outcome \<Rightarrow> world" where
  "world_of (Returns s w) = w"
| "world_of (Raises e s w) = w"

fun raised :: "outcome \<Rightarrow> error option" where
  "raised (Returns s w) = None"
| "raised (Raises e s w) = Some e"

subsection \<open>parse_input\<close>

text \<open>
  A path that names no file raises \<^verbatim>\<open>FileNotFoundError\<close>; the other ways in which
  \<^verbatim>\<open>open\<close> may fail to read are not followed.
\<close>

fun parse_input :: "files \<Rightarrow> pyval \<Rightarrow> error + bytes" where
  "parse_input fs (PyBytes b) = Inr b"
| "parse_input fs (PyStr p) = (case fs p of None \<Rightarrow> Inl FileNotFoundError | Some b \<Rightarrow> Inr b)"
| "parse_input fs _ = Inl BadInputError"

subsection \<open>The argument line of callpeak\<close>

text \<open>\<^verbatim>\<open>bool(self.control_bam)\<close>: neither \<^verbatim>\<open>None\<close> nor empty.\<close>

definition has_control :: "obj \<Rightarrow> bool" where
  "has_control s = (case control_bam s of None \<Rightarrow> False | Some c \<Rightarrow> c \<noteq> [])"

definition control_operand :: "obj \<Rightarrow> temps \<Rightarrow> pyseq" where
  "control_operand s t = seq_rep (has_control s) (PyTuple [''--control'', tmp_b t])"

definition callpeak_argv :: "obj \<Rightarrow> temps \<Rightarrow> string \<Rightarrow> error + pyseq" where
  "callpeak_argv s t sample_name =
     seq_add (seq_add (seq_add (seq_add (seq_add
       (Inr (PyTuple
          [macs2_path s, ''callpeak'',
           ''-B'',
           ''--extsize'', ''200'',
           ''--keep-dup'', ''all'',
           ''--treatment'', tmp_a t,
           ''--name'', sample_name,
           ''--qvalue'', qvalue s,
           ''--shift'', str_int (shift s)]))
       (control_operand s t))
       (seq_rep (nomodel s) (PyTuple [''--nomodel''])))
       (seq_rep (broad s) (PyTuple [''--broad'', ''--broad-cutoff'', broad_cutoff s])))
       (seq_rep (nolambda s) (PyString ''--nolambda'')))
       (seq_rep (call_summits s) (PyString ''--call-summits''))"

text \<open>What \<^verbatim>\<open>subprocess.call\<close> runs: a tuple as it is, a string as the program alone.\<close>

fun argv_of :: "pyseq \<Rightarrow> string list" where
  "argv_of (PyTuple xs) = xs"
| "argv_of (PyString s) = [s]"

subsection \<open>call_peaks\<close>

text \<open>\<^verbatim>\<open>ext.replace('.', '_')\<close>, the attribute an extension is stored under.\<close>

definition attr_name :: "string \<Rightarrow> string" where
  "attr_name ext = map (\<lambda>c. if c = CHR ''.'' then CHR ''_'' else c) ext"

text \<open>
  The loop of lines 225 to 231: each extension's file is read with \<^verbatim>\<open>cat\<close> and
  stored under its attribute name. It stops where \<^verbatim>\<open>cat\<close> cannot be started, with the
  buffers stored so far.
\<close>

fun load_outputs :: "system \<Rightarrow> path \<Rightarrow> string list \<Rightarrow> obj \<Rightarrow> world \<Rightarrow> error option \<times> obj \<times> world" where
  "load_outputs sys tn [] s w = (None, s, w)"
| "load_outputs sys tn (ext # exts) s w =
     (case communicate sys [''cat'', tn @ ''_'' @ ext] [] w of
        Inl e \<Rightarrow> (Some e, s, w)
      | Inr (output_file, w') \<Rightarrow>
          load_outputs sys tn exts (s\<lparr>buffers := (buffers s)(attr_name ext \<mapsto> output_file)\<rparr>) w')"

text \<open>
  Lines 190 to 203: the two temporary files are created empty, the treatment is written
  to the first and a truthy control to the second, neither flushed.
\<close>

definition stage_inputs :: "obj \<Rightarrow> temps \<Rightarrow> world \<Rightarrow> world" where
  "stage_inputs s t w =
     (let fs0 = (files w)(tmp_a t \<mapsto> [], tmp_b t \<mapsto> []);
          fs1 = fs0(tmp_a t \<mapsto> on_disk t (treatment_bam s));
          fs2 = (case control_bam s of
                   None \<Rightarrow> fs1
                 | Some c \<Rightarrow> if c \<noteq> [] then fs1(tmp_b t \<mapsto> on_disk t c) else fs1)
      in w\<lparr>files := fs2\<rparr>)"

text \<open>
  Lines 204 and 225 to 231, what \<^verbatim>\<open>call_peaks\<close> does with an argument line: the peak
  caller is run, its exit status is dropped, and the outputs are loaded.
\<close>

definition run_callpeak :: "system \<Rightarrow> temps \<Rightarrow> obj \<Rightarrow> world \<Rightarrow> pyseq \<Rightarrow> outcome" where
  "run_callpeak sys t s w argv =
     (case subprocess_call sys (argv_of argv) w of
        Inl e \<Rightarrow> Raises e s (leave_with t w)
      | Inr (exit_status, w2) \<Rightarrow>
          (case load_outputs sys (temp_name t) (output_extensions s) s w2 of
             (Some e, s', w3) \<Rightarrow> Raises e s' (leave_with t w3)
           | (None, s', w3) \<Rightarrow> Returns s' (leave_with t w3)))"

definition call_peaks :: "system \<Rightarrow> temps \<Rightarrow> obj \<Rightarrow> world \<Rightarrow> string \<Rightarrow> outcome" where
  "call_peaks sys t s w sample_name =
     (let w1 = stage_inputs s t w
      in case callpeak_argv s t sample_name of
           Inl e \<Rightarrow> Raises e s (leave_with t w1)
         | Inr argv \<Rightarrow> run_callpeak sys t s w1 argv)"

subsection \<open>__init__\<close>

record params =
  arg_treatment_bam :: pyval
  arg_macs2_path :: "string option"
  arg_atac_seq :: bool
  arg_control_bam :: pyval
  arg_qvalue :: string
  arg_nomodel :: bool
  arg_shift :: int
  arg_broad :: bool
  arg_broad_cutoff :: string
  arg_nolambda :: bool
  arg_call_summits :: bool
  arg_log :: "path option"

text \<open>The defaults of the signature, for a given treatment and MACS2 location.\<close>

definition defaults :: "pyval \<Rightarrow> string option \<Rightarrow> params" where
  "defaults treatment macs2 =
     \<lparr>arg_treatment_bam = treatment, arg_macs2_path = macs2, arg_atac_seq = False,
      arg_control_bam = PyNone, arg_qvalue = ''0.05'', arg_nomodel = False, arg_shift = 0,
      arg_broad = False, arg_broad_cutoff = ''0.1'', arg_nolambda = False,
      arg_call_summits = False, arg_log = None\<rparr>"

text \<open>\<^verbatim>\<open>parse_input(control_bam) if control_bam else None\<close>\<close>

definition parse_control :: "files \<Rightarrow> pyval \<Rightarrow> error + bytes option" where
  "parse_control fs c =
     (if truthy c
      then (case parse_input fs c of Inl e \<Rightarrow> Inl e | Inr b \<Rightarrow> Inr (Some b))
      else Inr None)"

text \<open>Lines 123 to 148: the check of the MACS2 location and the attribute assignments.\<close>

definition init_attrs :: "files \<Rightarrow> params \<Rightarrow> error + obj" where
  "init_attrs fs a =
     (case arg_macs2_path a of
        None \<Rightarrow> Inl MissingMACS2Error
      | Some m \<Rightarrow>
          if m = [] then Inl MissingMACS2Error
          else (case parse_input fs (arg_treatment_bam a) of
                  Inl e \<Rightarrow> Inl e
                | Inr tb \<Rightarrow>
                    (case parse_control fs (arg_control_bam a) of
                       Inl e \<Rightarrow> Inl e
                     | Inr cb \<Rightarrow>
                         Inr \<lparr>treatment_bam = tb,
                              macs2_path = m,
                              control_bam = cb,
                              qvalue = arg_qvalue a,
                              nomodel = (if arg_atac_seq a \<and> \<not> arg_nomodel a then True
                                         else arg_nomodel a),
                              shift = (if arg_atac_seq a \<and> arg_shift a = 0 then - 100
                                       else arg_shift a),
                              broad = arg_broad a,
                              broad_cutoff = arg_broad_cutoff a,
                              nolambda = arg_nolambda a,
                              call_summits = arg_call_summits a,
                              cleans_up = False,
                              cleanup_prefix = None,
                              log = arg_log a,
                              output_extensions =
                                [''peaks.xls'', ''peaks.narrowPeak'', ''summits.bed'',
                                 ''treat_pileup.bdg'']
                                @ list_rep (truthy (arg_control_bam a)) [''control_lambda.bdg'']
                                @ list_rep (arg_broad a) [''peaks.broadPeak'', ''peaks.gappedPeak''],
                              buffers = Map.empty\<rparr>)))"

text \<open>
  Construction ends in one of three ways: an exception before any attribute is used
  (\<open>Rejected\<close>), an exception inside \<^verbatim>\<open>call_peaks\<close> (\<open>Aborted\<close>, with the object as it
  stood), or an object (\<open>Constructed\<close>).
\<close>

datatype construction =
    Rejected error
  | Aborted error obj world
  | Constructed obj world

definition init :: "system \<Rightarrow> temps \<Rightarrow> world \<Rightarrow> params \<Rightarrow> construction" where
  "init sys t w a =
     (case init_attrs (files w) a of
        Inl e \<Rightarrow> Rejected e
      | Inr s \<Rightarrow>
          (case call_peaks sys t s w (py_basename (arg_treatment_bam a)) of
             Returns s' w' \<Rightarrow> Constructed s' w'
           | Raises e s' w' \<Rightarrow> Aborted e s' w'))"

fun construction_error :: "construction \<Rightarrow> error option" where
  "construction_error (Rejected e) = Some e"
| "construction_error (Aborted e s w) = Some e"
| "construction_error (Constructed s w) = None"

fun construction_obj :: "construction \<Rightarrow> obj option" where
  "construction_obj (Rejected e) = None"
| "construction_obj (Aborted e s w) = Some s"
| "construction_obj (Constructed s w) = Some s"

subsection \<open>__enter__, clean_up and __exit__\<close>

definition enter :: "obj \<Rightarrow> obj" where
  "enter s = s\<lparr>cleans_up := True\<rparr>"

text \<open>
  \<^verbatim>\<open>if (os.path.isfile(path) if path else False): os.remove(path)\<close>. The removal raises
  when the operating system refuses it.
\<close>

definition clean_up :: "world \<Rightarrow> path \<Rightarrow> error + world" where
  "clean_up w p =
     (if (if p \<noteq> [] then files w p \<noteq> None else False)
      then (case no_remove w p of
              Some e \<Rightarrow> Inl e
            | None \<Rightarrow> Inr (w\<lparr>files := (files w)(p := None)\<rparr>))
      else Inr w)"

text \<open>
  \<^verbatim>\<open>'{}_{}'.format(prefix, ext)\<close>. The prefix of \<^verbatim>\<open>__exit__\<close> is
  \<^verbatim>\<open>self.cleanup_prefix\<close>, which is \<^verbatim>\<open>None\<close> until \<^verbatim>\<open>write\<close> has returned and
  is then formatted as the word \<^verbatim>\<open>None\<close>.
\<close>

definition out_path :: "string \<Rightarrow> string \<Rightarrow> path" where
  "out_path prefix ext = prefix @ ''_'' @ ext"

definition str_prefix :: "string option \<Rightarrow> string" where
  "str_prefix p = (case p of None \<Rightarrow> ''None'' | Some x \<Rightarrow> x)"

fun clean_up_all :: "string \<Rightarrow> string list \<Rightarrow> world \<Rightarrow> error option \<times> world" where
  "clean_up_all prefix [] w = (None, w)"
| "clean_up_all prefix (ext # exts) w =
     (case clean_up w (out_path prefix ext) of
        Inl e \<Rightarrow> (Some e, w)
      | Inr w' \<Rightarrow> clean_up_all prefix exts w')"

definition exit :: "obj \<Rightarrow> world \<Rightarrow> outcome" where
  "exit s w =
     (if cleans_up s
      then (case clean_up_all (str_prefix (cleanup_prefix s)) (output_extensions s) w of
              (Some e, w') \<Rightarrow> Raises e s w'
            | (None, w') \<Rightarrow> Returns s w')
      else Returns s w)"

subsection \<open>bdgcmp\<close>

definition bdgcmp_argv :: "obj \<Rightarrow> temps \<Rightarrow> string list" where
  "bdgcmp_argv s t =
     [macs2_path s, ''bdgcmp'',
      ''-t'', tmp_a t,
      ''-c'', tmp_b t,
      ''-m'', ''ppois'',
      ''--o-prefix'', temp_name t,
      ''-p'', ''0.00001'']"

text \<open>
  The files \<^verbatim>\<open>macs2 bdgcmp\<close> finds when the two buffers have been written to the
  temporary files and not flushed.
\<close>

definition scratch_files :: "temps \<Rightarrow> files \<Rightarrow> bytes \<Rightarrow> bytes \<Rightarrow> files" where
  "scratch_files t fs treat_pileup control_lambda =
     fs(tmp_a t \<mapsto> on_disk t treat_pileup, tmp_b t \<mapsto> on_disk t control_lambda)"

text \<open>
  The extension is appended first. The two temporary files exist, empty, from the head of
  the \<^verbatim>\<open>with\<close> block; reading \<^verbatim>\<open>self.treat_pileup_bdg\<close> or
  \<^verbatim>\<open>self.control_lambda_bdg\<close> raises \<^verbatim>\<open>AttributeError\<close> when the attribute was
  never set. Then \<^verbatim>\<open>macs2 bdgcmp\<close> is run, its exit status is dropped, and \<^verbatim>\<open>cat\<close>
  reads what it left at the output prefix.
\<close>

definition bdgcmp :: "system \<Rightarrow> temps \<Rightarrow> obj \<Rightarrow> world \<Rightarrow> outcome" where
  "bdgcmp sys t s w =
     (let s1 = s\<lparr>output_extensions := output_extensions s @ [''ppois.bdg'']\<rparr>;
          w0 = w\<lparr>files := (files w)(tmp_a t \<mapsto> [], tmp_b t \<mapsto> [])\<rparr>
      in case buffers s1 ''treat_pileup_bdg'' of
           None \<Rightarrow> Raises AttributeError s1 (leave_with t w0)
         | Some treat_pileup \<Rightarrow>
             (let w1 = w0\<lparr>files := (files w0)(tmp_a t \<mapsto> on_disk t treat_pileup)\<rparr>
              in case buffers s1 ''control_lambda_bdg'' of
                   None \<Rightarrow> Raises AttributeError s1 (leave_with t w1)
                 | Some control_lambda \<Rightarrow>
                     (let w2 = w1\<lparr>files := (files w1)(tmp_b t \<mapsto> on_disk t control_lambda)\<rparr>
                      in case subprocess_call sys (bdgcmp_argv s1 t) w2 of
                           Inl e \<Rightarrow> Raises e s1 (leave_with t w2)
                         | Inr (exit_status, w3) \<Rightarrow>
                             (case communicate sys [''cat'', temp_name t @ ''_ppois.bdg''] [] w3 of
                                Inl e \<Rightarrow> Raises e s1 (leave_with t w3)
                              | Inr (ppois, w4) \<Rightarrow>
                                  Returns (s1\<lparr>buffers := (buffers s1)(''ppois_bdg'' \<mapsto> ppois)\<rparr>)
                                    (leave_with t w4)))))"

subsection \<open>bedtools_intersect and remove_blacklisted_peaks\<close>

definition bedtools_intersect :: "system \<Rightarrow> bytes \<Rightarrow> path \<Rightarrow> world \<Rightarrow> error + bytes \<times> world" where
  "bedtools_intersect sys peaks blacklist_path w =
     communicate sys
       [''bedtools'', ''intersect'',
        ''-a'', ''stdin'',
        ''-b'', blacklist_path,
        ''-v'']
       peaks w"

text \<open>
  The tuple the loop runs over is built first: \<^verbatim>\<open>self.peaks_narrowPeak\<close>, and in broad
  mode \<^verbatim>\<open>self.peaks_broadPeak\<close> and \<^verbatim>\<open>self.peaks_gappedPeak\<close>.
\<close>

definition peak_buffers :: "obj \<Rightarrow> error + bytes list" where
  "peak_buffers s =
     (case buffers s ''peaks_narrowPeak'' of
        None \<Rightarrow> Inl AttributeError
      | Some narrow \<Rightarrow>
          if broad s
          then (case buffers s ''peaks_broadPeak'' of
                  None \<Rightarrow> Inl AttributeError
                | Some broadp \<Rightarrow>
                    (case buffers s ''peaks_gappedPeak'' of
                       None \<Rightarrow> Inl AttributeError
                     | Some gapped \<Rightarrow> Inr [narrow, broadp, gapped]))
          else Inr [narrow])"

text \<open>
  The loop body assigns the filtered bytes to the loop variable \<^verbatim>\<open>peaks\<close>. The function
  carries that local variable along and gives its last value back beside the world; it
  stops where \<^verbatim>\<open>bedtools\<close> cannot be started.
\<close>

fun blacklist_loop :: "system \<Rightarrow> path \<Rightarrow> bytes list \<Rightarrow> bytes option \<Rightarrow> world \<Rightarrow> error option \<times> bytes option \<times> world" where
  "blacklist_loop sys blacklist_path [] peaks w = (None, peaks, w)"
| "blacklist_loop sys blacklist_path (p # ps) peaks w =
     (case bedtools_intersect sys p blacklist_path w of
        Inl e \<Rightarrow> (Some e, Some p, w)
      | Inr (filtered, w') \<Rightarrow> blacklist_loop sys blacklist_path ps (Some filtered) w')"

definition remove_blacklisted_peaks :: "system \<Rightarrow> obj \<Rightarrow> world \<Rightarrow> path \<Rightarrow> outcome" where
  "remove_blacklisted_peaks sys s w blacklist_path =
     (case peak_buffers s of
        Inl e \<Rightarrow> Raises e s w
      | Inr ps \<Rightarrow>
          (case blacklist_loop sys blacklist_path ps None w of
             (Some e, peaks, w') \<Rightarrow> Raises e s w'
           | (None, peaks, w') \<Rightarrow> Returns s w'))"

subsection \<open>write\<close>

text \<open>
  \<^verbatim>\<open>getattr(self, name)\<close> reaches every attribute of the object, not the output buffers
  alone. Of the attributes \<^verbatim>\<open>__init__\<close> assigns, \<^verbatim>\<open>treatment_bam\<close> holds bytes and
  \<^verbatim>\<open>control_bam\<close> bytes or \<^verbatim>\<open>None\<close>; the others hold no bytes. Next come the
  attributes set by name, and last what the class and \<^verbatim>\<open>object\<close> provide (the names
  \<^verbatim>\<open>object\<close> provides are those of Python 3.12).
\<close>

datatype attr = BytesAttr bytes | OtherAttr

definition instance_attributes :: "string list" where
  "instance_attributes =
     [''treatment_bam'', ''macs2_path'', ''control_bam'', ''qvalue'', ''nomodel'', ''shift'',
      ''broad'', ''broad_cutoff'', ''nolambda'', ''call_summits'', ''cleans_up'',
      ''cleanup_prefix'', ''log'', ''output_extensions'']"

definition class_attributes :: "string list" where
  "class_attributes =
     [''call_peaks'', ''bdgcmp'', ''remove_blacklisted_peaks'', ''write'', ''clean_up'',
      ''__init__'', ''__enter__'', ''__exit__'', ''__repr__'',
      ''__class__'', ''__delattr__'', ''__dict__'', ''__dir__'', ''__doc__'', ''__eq__'',
      ''__format__'', ''__ge__'', ''__getattribute__'', ''__getstate__'', ''__gt__'', ''__hash__'',
      ''__init_subclass__'', ''__le__'', ''__lt__'', ''__module__'', ''__ne__'', ''__new__'',
      ''__reduce__'', ''__reduce_ex__'', ''__setattr__'', ''__sizeof__'', ''__str__'',
      ''__subclasshook__'', ''__weakref__'']"

definition getattr :: "obj \<Rightarrow> string \<Rightarrow> attr option" where
  "getattr s name =
     (if name = ''treatment_bam'' then Some (BytesAttr (treatment_bam s))
      else if name = ''control_bam''
        then Some (case control_bam s of None \<Rightarrow> OtherAttr | Some b \<Rightarrow> BytesAttr b)
      else if name \<in> set instance_attributes then Some OtherAttr
      else (case buffers s name of
              Some b \<Rightarrow> Some (BytesAttr b)
            | None \<Rightarrow> if name \<in> set class_attributes then Some OtherAttr else None))"

text \<open>
  The method \<^verbatim>\<open>write\<close> is \<open>write_out\<close> here, \<open>write\<close> being a word of the proof
  language. \<^verbatim>\<open>open(path, 'wb')\<close> raises when the operating system refuses the path;
  otherwise it creates or empties the file before \<^verbatim>\<open>getattr\<close> looks the attribute up,
  so a missing attribute (\<^verbatim>\<open>AttributeError\<close>) and an attribute that holds no bytes
  (\<^verbatim>\<open>TypeError\<close> of \<^verbatim>\<open>f.write\<close>) leave an empty file behind.
\<close>

fun write_each :: "obj \<Rightarrow> world \<Rightarrow> string \<Rightarrow> string list \<Rightarrow> files \<Rightarrow> error option \<times> files" where
  "write_each s w prefix [] fs = (None, fs)"
| "write_each s w prefix (ext # exts) fs =
     (case no_write w (out_path prefix ext) of
        Some e \<Rightarrow> (Some e, fs)
      | None \<Rightarrow>
          (let fs0 = fs(out_path prefix ext \<mapsto> [])
           in case getattr s (attr_name ext) of
                None \<Rightarrow> (Some AttributeError, fs0)
              | Some OtherAttr \<Rightarrow> (Some TypeError, fs0)
              | Some (BytesAttr b) \<Rightarrow> write_each s w prefix exts (fs0(out_path prefix ext \<mapsto> b))))"

definition write_out :: "obj \<Rightarrow> world \<Rightarrow> string \<Rightarrow> string list \<Rightarrow> outcome" where
  "write_out s w prefix extensions =
     (case write_each s w prefix (if extensions \<noteq> [] then extensions else output_extensions s) (files w) of
        (Some e, fs) \<Rightarrow> Raises e s (w\<lparr>files := fs\<rparr>)
      | (None, fs) \<Rightarrow> Returns (s\<lparr>cleanup_prefix := Some prefix\<rparr>) (w\<lparr>files := fs\<rparr>))"

text \<open>
  The extensions \<^verbatim>\<open>__init__\<close> and \<^verbatim>\<open>bdgcmp\<close> put in \<^verbatim>\<open>output_extensions\<close>. No
  attribute name of theirs is an attribute the object has otherwise, which is why the
  attributes set by name are kept apart from the record.
\<close>

definition known_extensions :: "string list" where
  "known_extensions =
     [''peaks.xls'', ''peaks.narrowPeak'', ''summits.bed'', ''treat_pileup.bdg'',
      ''control_lambda.bdg'', ''peaks.broadPeak'', ''peaks.gappedPeak'', ''ppois.bdg'']"

definition fixed_attributes :: "string list" where
  "fixed_attributes = instance_attributes @ class_attributes"

subsection \<open>Auxiliary notions and sample values\<close>

text \<open>\<^verbatim>\<open>isinstance(v, bytes)\<close> or \<^verbatim>\<open>isinstance(v, str)\<close>.\<close>

definition is_input :: "pyval \<Rightarrow> bool" where
  "is_input v = (case v of PyBytes b \<Rightarrow> True | PyStr s \<Rightarrow> True | _ \<Rightarrow> False)"



text \<open>A system whose programs all fail with status 1, print nothing and touch no file.\<close>

definition failing_system :: system where
  "failing_system argv input fs = Started \<lparr>status = 1, stdout = [], files_after = fs\<rparr>"

text \<open>A system whose programs all succeed and print the word \<^verbatim>\<open>filtered\<close>.\<close>

definition filtering_system :: system where
  "filtering_system argv input fs =
     Started \<lparr>status = 0, stdout = ''filtered'', files_after = fs\<rparr>"

text \<open>
  A system on which the program \<^verbatim>\<open>macs2\<close> does not exist; every other program succeeds
  and prints nothing.
\<close>

definition macs2_missing :: system where
  "macs2_missing argv input fs =
     (if take 1 argv = [''macs2''] then Failed FileNotFoundError
      else Started \<lparr>status = 0, stdout = [], files_after = fs\<rparr>)"

text \<open>A system on which \<^verbatim>\<open>cat\<close> may not be run; every other program succeeds.\<close>

definition cat_forbidden :: system where
  "cat_forbidden argv input fs =
     (if take 1 argv = [''cat''] then Failed PermissionError
      else Started \<lparr>status = 0, stdout = [], files_after = fs\<rparr>)"

text \<open>Temporary names, with a buffering that keeps every write in memory.\<close>

definition sample_temps :: temps where
  "sample_temps =
     \<lparr>tmp_a = ''/tmp/a'', tmp_b = ''/tmp/b'', tmp_dir = ''/tmp/d'', tmp_leaf = ''n'',
      on_disk = (\<lambda>b. [])\<rparr>"

definition empty_world :: world where
  "empty_world =
     \<lparr>files = Map.empty, trace = [], no_write = (\<lambda>p. None), no_remove = (\<lambda>p. None)\<rparr>"

text \<open>
  An object as a construction with a control file is meant to leave it, with one buffer per
  output extension, and a world that holds one file of an earlier run.
\<close>

definition sample_obj :: obj where
  "sample_obj =
     \<lparr>treatment_bam = ''BAM'', macs2_path = ''macs2'', control_bam = Some ''CTL'',
      qvalue = ''0.05'', nomodel = False, shift = 0, broad = False, broad_cutoff = ''0.1'',
      nolambda = False, call_summits = False, cleans_up = False, cleanup_prefix = None,
      log = None,
      output_extensions =
        [''peaks.xls'', ''peaks.narrowPeak'', ''summits.bed'', ''treat_pileup.bdg'',
         ''control_lambda.bdg''],
      buffers =
        [''peaks_xls'' \<mapsto> ''xls'', ''peaks_narrowPeak'' \<mapsto> ''narrow'',
         ''summits_bed'' \<mapsto> ''summits'', ''treat_pileup_bdg'' \<mapsto> ''pileup'',
         ''control_lambda_bdg'' \<mapsto> ''lambda'']\<rparr>"

definition sample_world :: world where
  "sample_world =
     \<lparr>files = [''out_summits.bed'' \<mapsto> ''old''], trace = [],
      no_write = (\<lambda>p. None), no_remove = (\<lambda>p. None)\<rparr>"

section \<open>The argument line of callpeak is never built\<close>

lemma seq_add_tuple_string: "seq_add (Inr (PyTuple xs)) (seq_rep b (PyString s)) = Inl TypeError"
  by simp

lemma seq_add_tuple_tuple: "seq_add (Inr (PyTuple xs)) (seq_rep b (PyTuple ys)) = Inr (PyTuple (xs @ (if b then ys else [])))"
  by simp

lemma callpeak_argv_raises: "callpeak_argv s t sample_name = Inl TypeError"
  unfolding callpeak_argv_def control_operand_def
  by (simp only: seq_add_tuple_tuple seq_add_tuple_string seq_add.simps)

lemma call_peaks_raises:
  "call_peaks sys t s w sample_name = Raises TypeError s (leave_with t (stage_inputs s t w))"
  by (simp add: call_peaks_def callpeak_argv_raises Let_def)

lemma trace_leave_with: "trace (leave_with t w) = trace w"
  by (simp add: leave_with_def)

lemma trace_stage_inputs: "trace (stage_inputs s t w) = trace w"
  by (simp add: stage_inputs_def Let_def)

lemma init_unfold:
  "init sys t w a =
     (case init_attrs (files w) a of
        Inl e \<Rightarrow> Rejected e
      | Inr s \<Rightarrow> Aborted TypeError s (leave_with t (stage_inputs s t w)))"
  by (simp add: init_def call_peaks_raises split: sum.splits)

lemma construction_obj_init:
  "construction_obj (init sys t w a) = (case init_attrs (files w) a of Inl e \<Rightarrow> None | Inr s \<Rightarrow> Some s)"
  by (simp add: init_unfold split: sum.splits)

lemma init_attrs_defaults:
  "m \<noteq> [] \<Longrightarrow> init_attrs fs (defaults (PyBytes b) (Some m)) =
    Inr \<lparr>treatment_bam = b, macs2_path = m, control_bam = None,
        qvalue = ''0.05'', nomodel = False, shift = 0, broad = False,
        broad_cutoff = ''0.1'', nolambda = False, call_summits = False,
        cleans_up = False, cleanup_prefix = None, log = None,
        output_extensions =
          [''peaks.xls'', ''peaks.narrowPeak'', ''summits.bed'', ''treat_pileup.bdg''],
        buffers = Map.empty\<rparr>"
  by (simp add: init_attrs_def defaults_def parse_control_def list_rep_def)

lemma construction_error_init:
  "construction_error (init sys t w a) =
     (case init_attrs (files w) a of Inl e \<Rightarrow> Some e | Inr s \<Rightarrow> Some TypeError)"
  by (simp add: init_unfold split: sum.splits)

lemma construction_error_cases:
  "construction_error (init sys t w a) =
     (case arg_macs2_path a of
        None \<Rightarrow> Some MissingMACS2Error
      | Some m \<Rightarrow>
          if m = [] then Some MissingMACS2Error
          else (case parse_input (files w) (arg_treatment_bam a) of
                  Inl e \<Rightarrow> Some e
                | Inr tb \<Rightarrow>
                    (case parse_control (files w) (arg_control_bam a) of
                       Inl e \<Rightarrow> Some e
                     | Inr cb \<Rightarrow> Some TypeError)))"
  by (simp add: construction_error_init init_attrs_def split: option.splits sum.splits)

text \<open>
  Claim C3 (the argument line passed to the peak caller, and one run per construction).
  The expression of lines 205 to 222 adds the string \<^verbatim>\<open>self.nolambda * ('--nolambda')\<close>
  to a tuple. For every object, all temporary names and every sample name its evaluation
  raises \<^verbatim>\<open>TypeError\<close>: no argument line exists, \<^verbatim>\<open>call_peaks\<close> raises, and the list of
  programs run is what it was before the call, so the peak caller is run no time at all.
\<close>

theorem callpeak_argument_line_raises:
  "callpeak_argv s t sample_name = Inl TypeError
   \<and> raised (call_peaks sys t s w sample_name) = Some TypeError
   \<and> trace (world_of (call_peaks sys t s w sample_name)) = trace w"
  by (simp add: callpeak_argv_raises call_peaks_raises trace_leave_with trace_stage_inputs)

section \<open>Construction\<close>

subsection \<open>What the loop of call_peaks would store\<close>

text \<open>
  Had the argument line been built, the loop would leave one buffer per output extension and
  touch nothing else of the object; and the extensions \<^verbatim>\<open>__init__\<close> lists are the four
  fixed ones, the control track for a truthy control, and the two broad lists in broad mode.
\<close>

lemma load_outputs_dom:
  "load_outputs sys tn exts s w = (None, s', w') \<Longrightarrow>
     dom (buffers s') = dom (buffers s) \<union> attr_name ` set exts"
proof (induction exts arbitrary: s w)
  case Nil
  then show ?case by simp
next
  case (Cons x xs)
  from Cons.prems obtain output_file w1 where
    "load_outputs sys tn xs (s\<lparr>buffers := (buffers s)(attr_name x \<mapsto> output_file)\<rparr>) w1
       = (None, s', w')"
    by (auto split: sum.splits)
  from Cons.IH [OF this] show ?case by auto
qed

lemma load_outputs_fields:
  "load_outputs sys tn exts s w = (e, s', w') \<Longrightarrow> \<exists>m. s' = s\<lparr>buffers := m\<rparr>"
proof (induction exts arbitrary: s w)
  case Nil
  then have "s' = s\<lparr>buffers := buffers s\<rparr>" by simp
  then show ?case by blast
next
  case (Cons x xs)
  show ?case
  proof (cases "communicate sys [''cat'', tn @ ''_'' @ x] [] w")
    case (Inl err)
    with Cons.prems have "s' = s\<lparr>buffers := buffers s\<rparr>" by simp
    then show ?thesis by blast
  next
    case (Inr r)
    with Cons.prems have
      "load_outputs sys tn xs (s\<lparr>buffers := (buffers s)(attr_name x \<mapsto> fst r)\<rparr>) (snd r)
         = (e, s', w')"
      by (simp add: case_prod_beta)
    from Cons.IH [OF this] show ?thesis by auto
  qed
qed

lemma attr_names_fresh: "\<forall>ext \<in> set known_extensions. attr_name ext \<notin> set fixed_attributes"
  by (simp add: known_extensions_def fixed_attributes_def instance_attributes_def
      class_attributes_def attr_name_def)

lemma init_attrs_known:
  "init_attrs fs a = Inr s \<Longrightarrow> set (output_extensions s) \<subseteq> set known_extensions"
  by (auto simp: init_attrs_def known_extensions_def list_rep_def split: option.splits sum.splits if_splits)

lemma init_attrs_output_extensions:
  "init_attrs fs a = Inr s \<Longrightarrow>
     set (output_extensions s) =
       {''peaks.xls'', ''peaks.narrowPeak'', ''summits.bed'', ''treat_pileup.bdg''}
       \<union> (if truthy (arg_control_bam a) then {''control_lambda.bdg''} else {})
       \<union> (if arg_broad a then {''peaks.broadPeak'', ''peaks.gappedPeak''} else {})"
  by (auto simp: init_attrs_def list_rep_def split: option.splits sum.splits if_splits)

lemma str_int_samples: "str_int (- 100) = ''-100''" "str_int 0 = ''0''"
  by (simp_all add: str_int_def str_nat.simps digit_char_def)

subsection \<open>Construction with valid input\<close>

text \<open>
  Claim C1 (construction raises a documented error or fills the expected buffers).
  Whenever the MACS2 location is present and the inputs load, so that the attribute
  assignments of \<^verbatim>\<open>__init__\<close> go through, construction ends in the \<^verbatim>\<open>TypeError\<close> of
  \<^verbatim>\<open>call_peaks\<close>: it neither raises one of the two documented errors nor returns an
  object, and no buffer is stored.
\<close>

theorem construction_aborts_on_valid_input:
  "init_attrs (files w) a = Inr s \<Longrightarrow>
   init sys t w a = Aborted TypeError s (leave_with t (stage_inputs s t w))"
  by (simp add: init_unfold)

text \<open>The same at the default configuration, with a treatment given as bytes.\<close>

theorem construction_aborts_on_valid_input_witness:
  "construction_error
     (init failing_system sample_temps empty_world (defaults (PyBytes ''BAM'') (Some ''macs2'')))
     = Some TypeError"
  using construction_aborts_on_valid_input
    [OF init_attrs_defaults [of "''macs2''" "files empty_world" "''BAM''"],
     of failing_system sample_temps]
  by simp

subsection \<open>The two errors of the module\<close>

lemma parse_input_BadInput: "parse_input fs v = Inl BadInputError \<longleftrightarrow> \<not> is_input v"
  by (cases v) (auto simp: is_input_def split: option.splits)

lemma parse_input_not_Missing: "parse_input fs v \<noteq> Inl MissingMACS2Error"
  by (cases v) (auto split: option.splits)

lemma parse_control_BadInput:
  "parse_control fs c = Inl BadInputError \<longleftrightarrow> truthy c \<and> \<not> is_input c"
  by (cases c) (auto simp: parse_control_def is_input_def split: option.splits sum.splits)

lemma parse_control_not_Missing: "parse_control fs c \<noteq> Inl MissingMACS2Error"
  by (cases c) (auto simp: parse_control_def split: option.splits sum.splits)

text \<open>
  Claim C4, as amended (the two errors raised by construction). \<^verbatim>\<open>MissingMACS2Error\<close>
  is raised exactly when the MACS2 location is \<^verbatim>\<open>None\<close> or empty, before any input is
  looked at. \<^verbatim>\<open>BadInputError\<close> is raised exactly when the location is present and
  either the treatment is neither \<^verbatim>\<open>str\<close> nor \<^verbatim>\<open>bytes\<close>, or the treatment has loaded
  and the control is truthy and neither \<^verbatim>\<open>str\<close> nor \<^verbatim>\<open>bytes\<close>. A falsy control of
  any type counts as no control and raises nothing.
\<close>

theorem construction_errors_characterised:
  "(construction_error (init sys t w a) = Some MissingMACS2Error
      \<longleftrightarrow> arg_macs2_path a = None \<or> arg_macs2_path a = Some [])
   \<and> (construction_error (init sys t w a) = Some BadInputError
      \<longleftrightarrow> (\<exists>m. arg_macs2_path a = Some m \<and> m \<noteq> [])
          \<and> (\<not> is_input (arg_treatment_bam a)
             \<or> (\<exists>b. parse_input (files w) (arg_treatment_bam a) = Inr b)
               \<and> truthy (arg_control_bam a) \<and> \<not> is_input (arg_control_bam a)))"
proof (intro conjI)
  show "construction_error (init sys t w a) = Some MissingMACS2Error
      \<longleftrightarrow> arg_macs2_path a = None \<or> arg_macs2_path a = Some []"
    using parse_input_not_Missing [of "files w" "arg_treatment_bam a"]
      parse_control_not_Missing [of "files w" "arg_control_bam a"]
    by (auto simp: construction_error_cases split: sum.splits option.splits if_splits)
next
  show "construction_error (init sys t w a) = Some BadInputError
      \<longleftrightarrow> (\<exists>m. arg_macs2_path a = Some m \<and> m \<noteq> [])
          \<and> (\<not> is_input (arg_treatment_bam a)
             \<or> (\<exists>b. parse_input (files w) (arg_treatment_bam a) = Inr b)
               \<and> truthy (arg_control_bam a) \<and> \<not> is_input (arg_control_bam a))"
    using parse_input_BadInput [of "files w" "arg_treatment_bam a"]
      parse_control_BadInput [of "files w" "arg_control_bam a"]
    by (auto simp: construction_error_cases split: sum.splits option.splits if_splits)
qed

text \<open>An integer treatment is rejected; a missing location is reported.\<close>

theorem construction_errors_witness:
  "construction_error (init failing_system sample_temps empty_world
      (defaults (PyInt 5) (Some ''macs2''))) = Some BadInputError
   \<and> construction_error (init failing_system sample_temps empty_world
      (defaults (PyBytes ''BAM'') None)) = Some MissingMACS2Error"
proof -
  have "\<not> is_input (arg_treatment_bam (defaults (PyInt 5) (Some ''macs2'')))"
       "arg_macs2_path (defaults (PyInt 5) (Some ''macs2'')) = Some ''macs2''"
       "arg_macs2_path (defaults (PyBytes ''BAM'') None) = None"
    by (simp_all add: defaults_def is_input_def)
  with construction_errors_characterised [of failing_system sample_temps empty_world "defaults (PyInt 5) (Some ''macs2'')"]
       construction_errors_characterised [of failing_system sample_temps empty_world "defaults (PyBytes ''BAM'') None"]
  show ?thesis by simp
qed

text \<open>
  The claim as it was written fails: the control \<^verbatim>\<open>0\<close> is neither \<^verbatim>\<open>str\<close> nor
  \<^verbatim>\<open>bytes\<close> and raises no \<^verbatim>\<open>BadInputError\<close>; nor does the treatment \<^verbatim>\<open>5\<close> when the MACS2
  location is missing.
\<close>

theorem falsy_control_not_rejected:
  "\<not> is_input (PyInt 0)
   \<and> construction_error (init failing_system sample_temps empty_world
        ((defaults (PyBytes ''BAM'') (Some ''macs2''))\<lparr>arg_control_bam := PyInt 0\<rparr>))
       \<noteq> Some BadInputError
   \<and> \<not> is_input (PyInt 5)
   \<and> construction_error (init failing_system sample_temps empty_world (defaults (PyInt 5) None))
       \<noteq> Some BadInputError"
  by (simp add: construction_error_cases defaults_def is_input_def parse_control_def)

subsection \<open>ATAC-seq mode\<close>

lemma init_attrs_nomodel_shift:
  "init_attrs fs a = Inr s \<Longrightarrow>
     nomodel s = (if arg_atac_seq a \<and> \<not> arg_nomodel a then True else arg_nomodel a)
   \<and> shift s = (if arg_atac_seq a \<and> arg_shift a = 0 then - 100 else arg_shift a)"
  by (auto simp: init_attrs_def split: option.splits if_splits sum.splits)

text \<open>
  Claim C10 (ATAC-seq mode). In the object \<^verbatim>\<open>__init__\<close> has assigned, with ATAC-seq mode
  on, \<^verbatim>\<open>nomodel\<close> is true and \<^verbatim>\<open>shift\<close> is -100 when the shift passed is zero (the
  default and an explicit zero are the same argument) and the shift passed otherwise; with
  ATAC-seq mode off both are the values passed.
\<close>

theorem atac_seq_overrides: "construction_obj (init sys t w a) = Some s \<Longrightarrow>
    (arg_atac_seq a \<longrightarrow>
       nomodel s \<and> (arg_shift a = 0 \<longrightarrow> shift s = - 100) \<and> (arg_shift a \<noteq> 0 \<longrightarrow> shift s = arg_shift a))
  \<and> (\<not> arg_atac_seq a \<longrightarrow> nomodel s = arg_nomodel a \<and> shift s = arg_shift a)"
proof -
  assume "construction_obj (init sys t w a) = Some s"
  then have "init_attrs (files w) a = Inr s"
    by (simp add: construction_obj_init split: sum.splits)
  from init_attrs_nomodel_shift [OF this] show ?thesis by auto
qed

text \<open>With ATAC-seq mode on and the defaults, and with a shift of 37 and the mode off.\<close>

theorem atac_seq_overrides_witness:
  "nomodel (the (construction_obj (init failing_system sample_temps empty_world
      ((defaults (PyBytes ''BAM'') (Some ''macs2''))\<lparr>arg_atac_seq := True\<rparr>))))
   \<and> shift (the (construction_obj (init failing_system sample_temps empty_world
      ((defaults (PyBytes ''BAM'') (Some ''macs2''))\<lparr>arg_atac_seq := True\<rparr>)))) = - 100
   \<and> shift (the (construction_obj (init failing_system sample_temps empty_world
      ((defaults (PyBytes ''BAM'') (Some ''macs2''))\<lparr>arg_shift := 37\<rparr>)))) = 37"
proof -
  let ?a = "(defaults (PyBytes ''BAM'') (Some ''macs2''))\<lparr>arg_atac_seq := True\<rparr>"
  let ?b = "(defaults (PyBytes ''BAM'') (Some ''macs2''))\<lparr>arg_shift := 37\<rparr>"
  let ?c = "\<lambda>a. construction_obj (init failing_system sample_temps empty_world a)"
  have a: "?c ?a = Some (the (?c ?a))"
    by (simp add: construction_obj_init init_attrs_def defaults_def parse_control_def)
  have b: "?c ?b = Some (the (?c ?b))"
    by (simp add: construction_obj_init init_attrs_def defaults_def parse_control_def)
  have fa: "arg_atac_seq ?a" "arg_shift ?a = 0" by (simp_all add: defaults_def)
  have fb: "\<not> arg_atac_seq ?b" "arg_shift ?b = 37" by (simp_all add: defaults_def)
  from atac_seq_overrides [OF a] fa atac_seq_overrides [OF b] fb show ?thesis by simp
qed

subsection \<open>An empty control\<close>

lemma init_attrs_empty_control:
  "init_attrs fs (a\<lparr>arg_control_bam := PyBytes []\<rparr>) = init_attrs fs (a\<lparr>arg_control_bam := PyNone\<rparr>)"
  by (simp add: init_attrs_def parse_control_def cong: option.case_cong sum.case_cong if_cong)

lemma init_attrs_no_control:
  "init_attrs fs (a\<lparr>arg_control_bam := PyBytes []\<rparr>) = Inr s \<Longrightarrow>
     control_bam s = None \<and> ''control_lambda.bdg'' \<notin> set (output_extensions s)"
  by (auto simp: init_attrs_def parse_control_def list_rep_def split: option.splits if_splits sum.splits)

lemma control_operand_None: "control_bam s = None \<Longrightarrow> control_operand s t = PyTuple []"
  by (simp add: control_operand_def has_control_def)

text \<open>
  Claim C9 (an empty \<^verbatim>\<open>bytes\<close> control is no control). Construction with the control
  \<^verbatim>\<open>b''\<close> ends exactly as construction with the control \<^verbatim>\<open>None\<close>; the object has no
  control, \<^verbatim>\<open>control_lambda.bdg\<close> is not among its output extensions, and the operand
  that would carry \<^verbatim>\<open>--control\<close> is the empty tuple.
\<close>

theorem empty_control_is_no_control:
  "init sys t w (a\<lparr>arg_control_bam := PyBytes []\<rparr>) = init sys t w (a\<lparr>arg_control_bam := PyNone\<rparr>)
   \<and> (construction_obj (init sys t w (a\<lparr>arg_control_bam := PyBytes []\<rparr>)) = Some s \<longrightarrow>
        control_bam s = None
      \<and> ''control_lambda.bdg'' \<notin> set (output_extensions s)
      \<and> control_operand s t = PyTuple [])"
proof (intro conjI impI)
  show "init sys t w (a\<lparr>arg_control_bam := PyBytes []\<rparr>) = init sys t w (a\<lparr>arg_control_bam := PyNone\<rparr>)"
    by (simp add: init_unfold init_attrs_empty_control)
next
  assume "construction_obj (init sys t w (a\<lparr>arg_control_bam := PyBytes []\<rparr>)) = Some s"
  then have *: "init_attrs (files w) (a\<lparr>arg_control_bam := PyBytes []\<rparr>) = Inr s"
    by (simp add: construction_obj_init split: sum.splits)
  from init_attrs_no_control [OF *]
  show "control_bam s = None" and "''control_lambda.bdg'' \<notin> set (output_extensions s)"
    by simp_all
  then show "control_operand s t = PyTuple []"
    by (simp add: control_operand_None)
qed

text \<open>At the defaults with the control \<^verbatim>\<open>b''\<close>: no control, and the four fixed extensions.\<close>

theorem empty_control_is_no_control_witness:
  "control_bam (the (construction_obj (init failing_system sample_temps empty_world
      ((defaults (PyBytes ''BAM'') (Some ''macs2''))\<lparr>arg_control_bam := PyBytes []\<rparr>)))) = None
   \<and> output_extensions (the (construction_obj (init failing_system sample_temps empty_world
      ((defaults (PyBytes ''BAM'') (Some ''macs2''))\<lparr>arg_control_bam := PyBytes []\<rparr>))))
      = [''peaks.xls'', ''peaks.narrowPeak'', ''summits.bed'', ''treat_pileup.bdg'']"
proof -
  let ?d = "defaults (PyBytes ''BAM'') (Some ''macs2'')"
  let ?c = "construction_obj (init failing_system sample_temps empty_world (?d\<lparr>arg_control_bam := PyBytes []\<rparr>))"
  have a: "?c = Some (the ?c)"
    by (simp add: construction_obj_init init_attrs_def defaults_def parse_control_def)
  from empty_control_is_no_control [of failing_system sample_temps empty_world ?d "the ?c"] a
  have "control_bam (the ?c) = None" by blast
  moreover have "output_extensions (the ?c)
      = [''peaks.xls'', ''peaks.narrowPeak'', ''summits.bed'', ''treat_pileup.bdg'']"
    by (simp add: construction_obj_init init_attrs_def defaults_def parse_control_def list_rep_def)
  ultimately show ?thesis by simp
qed

section \<open>The methods\<close>

subsection \<open>remove_blacklisted_peaks\<close>

lemma obj_of_remove_blacklisted_peaks:
  "obj_of (remove_blacklisted_peaks sys s w blacklist_path) = s"
  by (simp add: remove_blacklisted_peaks_def split: sum.splits prod.splits option.splits)

text \<open>
  Claim C2 (blacklist filtering changes no stored buffer). Whatever the object, the
  blacklist path and the programs, and whether the method returns or raises, the object
  after \<^verbatim>\<open>remove_blacklisted_peaks\<close> is the object before it; in particular every buffer
  is what it was.
\<close>

theorem remove_blacklisted_peaks_keeps_object:
  "obj_of (remove_blacklisted_peaks sys s w blacklist_path) = s
   \<and> buffers (obj_of (remove_blacklisted_peaks sys s w blacklist_path)) = buffers s"
  by (simp add: obj_of_remove_blacklisted_peaks)

text \<open>
  The filter does run: on the sample object \<^verbatim>\<open>bedtools\<close> is called once and the loop
  variable ends as its output, while the object is returned as it was.
\<close>

lemma remove_blacklisted_peaks_sample:
  "remove_blacklisted_peaks filtering_system sample_obj empty_world ''blacklist.bed'' =
     Returns sample_obj
       (empty_world\<lparr>trace :=
          [[''bedtools'', ''intersect'', ''-a'', ''stdin'', ''-b'', ''blacklist.bed'', ''-v'']]\<rparr>)"
  "blacklist_loop filtering_system ''blacklist.bed'' [''narrow''] None empty_world =
     (None, Some ''filtered'',
       empty_world\<lparr>trace :=
          [[''bedtools'', ''intersect'', ''-a'', ''stdin'', ''-b'', ''blacklist.bed'', ''-v'']]\<rparr>)"
  by (simp_all add: remove_blacklisted_peaks_def peak_buffers_def sample_obj_def
      bedtools_intersect_def communicate_def filtering_system_def empty_world_def)

subsection \<open>bdgcmp\<close>

lemma bdgcmp_argv_extensions:
  "bdgcmp_argv (s\<lparr>output_extensions := xs\<rparr>) t = bdgcmp_argv s t"
  by (simp add: bdgcmp_argv_def)

lemma bdgcmp_missing:
  "buffers s ''treat_pileup_bdg'' = None \<or> buffers s ''control_lambda_bdg'' = None \<Longrightarrow>
   \<exists>w'. bdgcmp sys t s w =
           Raises AttributeError (s\<lparr>output_extensions := output_extensions s @ [''ppois.bdg'']\<rparr>) w'
        \<and> trace w' = trace w"
  by (auto simp: bdgcmp_def Let_def leave_with_def split: option.splits)

lemma bdgcmp_macs2_fails:
  assumes "buffers s ''treat_pileup_bdg'' = Some tp" and "buffers s ''control_lambda_bdg'' = Some cl"
    and "sys (bdgcmp_argv s t) [] (scratch_files t (files w) tp cl) = Failed e"
  shows "bdgcmp sys t s w =
           Raises e (s\<lparr>output_extensions := output_extensions s @ [''ppois.bdg'']\<rparr>)
             (leave_with t (w\<lparr>files := scratch_files t (files w) tp cl\<rparr>))"
  using assms
  by (simp add: bdgcmp_def Let_def subprocess_call_def scratch_files_def bdgcmp_argv_extensions)

lemma bdgcmp_cat_fails:
  assumes "buffers s ''treat_pileup_bdg'' = Some tp" and "buffers s ''control_lambda_bdg'' = Some cl"
    and "sys (bdgcmp_argv s t) [] (scratch_files t (files w) tp cl) = Started r1"
    and "sys [''cat'', temp_name t @ ''_ppois.bdg''] [] (files_after r1) = Failed e"
  shows "bdgcmp sys t s w =
           Raises e (s\<lparr>output_extensions := output_extensions s @ [''ppois.bdg'']\<rparr>)
             (w\<lparr>files := release_temps t (files_after r1), trace := trace w @ [bdgcmp_argv s t]\<rparr>)"
  using assms
  by (simp add: bdgcmp_def Let_def subprocess_call_def communicate_def scratch_files_def
      bdgcmp_argv_extensions leave_with_def)

lemma bdgcmp_returns:
  assumes "buffers s ''treat_pileup_bdg'' = Some tp" and "buffers s ''control_lambda_bdg'' = Some cl"
    and "sys (bdgcmp_argv s t) [] (scratch_files t (files w) tp cl) = Started r1"
    and "sys [''cat'', temp_name t @ ''_ppois.bdg''] [] (files_after r1) = Started r2"
  shows "bdgcmp sys t s w =
           Returns (s\<lparr>output_extensions := output_extensions s @ [''ppois.bdg''],
                      buffers := (buffers s)(''ppois_bdg'' \<mapsto> stdout r2)\<rparr>)
             (w\<lparr>files := release_temps t (files_after r2),
                trace := trace w @ [bdgcmp_argv s t, [''cat'', temp_name t @ ''_ppois.bdg'']]\<rparr>)"
  using assms
  by (simp add: bdgcmp_def Let_def subprocess_call_def communicate_def scratch_files_def
      bdgcmp_argv_extensions leave_with_def)

text \<open>
  Claim C6, as amended (the comparison step and its unguarded precondition). When
  \<^verbatim>\<open>treat_pileup_bdg\<close> or \<^verbatim>\<open>control_lambda_bdg\<close> is missing, \<^verbatim>\<open>bdgcmp\<close> raises
  \<^verbatim>\<open>AttributeError\<close>, which is neither of the module's errors, with \<^verbatim>\<open>ppois.bdg\<close>
  appended to the output extensions and no program run. When both are there,
  \<^verbatim>\<open>macs2 bdgcmp\<close> is run on the two temporary files as they stand unflushed. If it
  cannot be started, or \<^verbatim>\<open>cat\<close> after it, the error of the operating system is raised,
  with the extension appended and no buffer set. If both start, the step returns: the
  object differs from the one before in that \<^verbatim>\<open>ppois.bdg\<close> is appended and the one buffer
  \<^verbatim>\<open>ppois_bdg\<close> is the output of \<^verbatim>\<open>cat\<close> on what \<^verbatim>\<open>macs2\<close> left; the two programs are
  the only ones run, and the temporary files are gone.
\<close>

theorem bdgcmp_precondition_and_effect:
  "(buffers s ''treat_pileup_bdg'' = None \<or> buffers s ''control_lambda_bdg'' = None \<longrightarrow>
       raised (bdgcmp sys t s w) = Some AttributeError
     \<and> obj_of (bdgcmp sys t s w) = s\<lparr>output_extensions := output_extensions s @ [''ppois.bdg'']\<rparr>
     \<and> trace (world_of (bdgcmp sys t s w)) = trace w)
   \<and> (buffers s ''treat_pileup_bdg'' = Some tp \<and> buffers s ''control_lambda_bdg'' = Some cl \<longrightarrow>
       (sys (bdgcmp_argv s t) [] (scratch_files t (files w) tp cl) = Failed e \<longrightarrow>
          bdgcmp sys t s w =
            Raises e (s\<lparr>output_extensions := output_extensions s @ [''ppois.bdg'']\<rparr>)
              (leave_with t (w\<lparr>files := scratch_files t (files w) tp cl\<rparr>)))
     \<and> (sys (bdgcmp_argv s t) [] (scratch_files t (files w) tp cl) = Started r1
        \<and> sys [''cat'', temp_name t @ ''_ppois.bdg''] [] (files_after r1) = Failed e \<longrightarrow>
          bdgcmp sys t s w =
            Raises e (s\<lparr>output_extensions := output_extensions s @ [''ppois.bdg'']\<rparr>)
              (w\<lparr>files := release_temps t (files_after r1), trace := trace w @ [bdgcmp_argv s t]\<rparr>))
     \<and> (sys (bdgcmp_argv s t) [] (scratch_files t (files w) tp cl) = Started r1
        \<and> sys [''cat'', temp_name t @ ''_ppois.bdg''] [] (files_after r1) = Started r2 \<longrightarrow>
          bdgcmp sys t s w =
            Returns (s\<lparr>output_extensions := output_extensions s @ [''ppois.bdg''],
                       buffers := (buffers s)(''ppois_bdg'' \<mapsto> stdout r2)\<rparr>)
              (w\<lparr>files := release_temps t (files_after r2),
                 trace := trace w @ [bdgcmp_argv s t, [''cat'', temp_name t @ ''_ppois.bdg'']]\<rparr>)))"
proof (intro conjI impI)
  assume m: "buffers s ''treat_pileup_bdg'' = None \<or> buffers s ''control_lambda_bdg'' = None"
  from bdgcmp_missing [OF m, of sys t w] obtain w' where
    *: "bdgcmp sys t s w =
          Raises AttributeError (s\<lparr>output_extensions := output_extensions s @ [''ppois.bdg'']\<rparr>) w'"
    and **: "trace w' = trace w" by blast
  show "raised (bdgcmp sys t s w) = Some AttributeError" by (simp add: *)
  show "obj_of (bdgcmp sys t s w) = s\<lparr>output_extensions := output_extensions s @ [''ppois.bdg'']\<rparr>"
    by (simp add: *)
  show "trace (world_of (bdgcmp sys t s w)) = trace w" by (simp add: * **)
next
  assume "buffers s ''treat_pileup_bdg'' = Some tp \<and> buffers s ''control_lambda_bdg'' = Some cl"
    and "sys (bdgcmp_argv s t) [] (scratch_files t (files w) tp cl) = Failed e"
  then show "bdgcmp sys t s w =
            Raises e (s\<lparr>output_extensions := output_extensions s @ [''ppois.bdg'']\<rparr>)
              (leave_with t (w\<lparr>files := scratch_files t (files w) tp cl\<rparr>))"
    by (simp add: bdgcmp_macs2_fails)
next
  assume "buffers s ''treat_pileup_bdg'' = Some tp \<and> buffers s ''control_lambda_bdg'' = Some cl"
    and "sys (bdgcmp_argv s t) [] (scratch_files t (files w) tp cl) = Started r1
        \<and> sys [''cat'', temp_name t @ ''_ppois.bdg''] [] (files_after r1) = Failed e"
  then show "bdgcmp sys t s w =
            Raises e (s\<lparr>output_extensions := output_extensions s @ [''ppois.bdg'']\<rparr>)
              (w\<lparr>files := release_temps t (files_after r1), trace := trace w @ [bdgcmp_argv s t]\<rparr>)"
    by (simp add: bdgcmp_cat_fails)
next
  assume "buffers s ''treat_pileup_bdg'' = Some tp \<and> buffers s ''control_lambda_bdg'' = Some cl"
    and "sys (bdgcmp_argv s t) [] (scratch_files t (files w) tp cl) = Started r1
        \<and> sys [''cat'', temp_name t @ ''_ppois.bdg''] [] (files_after r1) = Started r2"
  then show "bdgcmp sys t s w =
            Returns (s\<lparr>output_extensions := output_extensions s @ [''ppois.bdg''],
                       buffers := (buffers s)(''ppois_bdg'' \<mapsto> stdout r2)\<rparr>)
              (w\<lparr>files := release_temps t (files_after r2),
                 trace := trace w @ [bdgcmp_argv s t, [''cat'', temp_name t @ ''_ppois.bdg'']]\<rparr>)"
    by (simp add: bdgcmp_returns)
qed

text \<open>
  On the sample object with programs that start, the step returns with the output of
  \<^verbatim>\<open>cat\<close> as the new buffer and both programs in the trace; without buffers it raises
  \<^verbatim>\<open>AttributeError\<close>; where \<^verbatim>\<open>macs2\<close> or \<^verbatim>\<open>cat\<close> cannot be started it raises
  the error of the start.
\<close>

theorem bdgcmp_precondition_and_effect_witness:
  "bdgcmp filtering_system sample_temps sample_obj empty_world =
     Returns (sample_obj\<lparr>output_extensions := output_extensions sample_obj @ [''ppois.bdg''],
                buffers := (buffers sample_obj)(''ppois_bdg'' \<mapsto> ''filtered'')\<rparr>)
       (empty_world\<lparr>trace :=
          [[''macs2'', ''bdgcmp'', ''-t'', ''/tmp/a'', ''-c'', ''/tmp/b'', ''-m'', ''ppois'',
            ''--o-prefix'', ''/tmp/d/n'', ''-p'', ''0.00001''],
           [''cat'', ''/tmp/d/n_ppois.bdg'']]\<rparr>)
   \<and> raised (bdgcmp filtering_system sample_temps (sample_obj\<lparr>buffers := Map.empty\<rparr>) empty_world)
       = Some AttributeError
   \<and> raised (bdgcmp macs2_missing sample_temps sample_obj empty_world) = Some FileNotFoundError
   \<and> raised (bdgcmp cat_forbidden sample_temps sample_obj empty_world) = Some PermissionError"
proof -
  let ?fs = "scratch_files sample_temps (files empty_world) ''pileup'' ''lambda''"
  let ?r0 = "\<lparr>status = 0, stdout = [], files_after = ?fs\<rparr>"
  have m: "macs2_missing (bdgcmp_argv sample_obj sample_temps) [] ?fs = Failed FileNotFoundError"
    by (simp add: macs2_missing_def bdgcmp_argv_def sample_obj_def)
  have c: "cat_forbidden (bdgcmp_argv sample_obj sample_temps) [] ?fs = Started ?r0
      \<and> cat_forbidden [''cat'', temp_name sample_temps @ ''_ppois.bdg''] [] (files_after ?r0)
          = Failed PermissionError"
    by (simp add: cat_forbidden_def bdgcmp_argv_def sample_obj_def)
  note d = bdgcmp_precondition_and_effect
    [where s = sample_obj and tp = "''pileup''" and cl = "''lambda''" and sys = macs2_missing
       and t = sample_temps and w = empty_world and e = FileNotFoundError]
  note e = bdgcmp_precondition_and_effect
    [where s = sample_obj and tp = "''pileup''" and cl = "''lambda''" and sys = cat_forbidden
       and t = sample_temps and w = empty_world and e = PermissionError and ?r1.0 = ?r0]
  let ?r = "\<lparr>status = 0, stdout = ''filtered'', files_after = ?fs\<rparr>"
  have p: "buffers sample_obj ''treat_pileup_bdg'' = Some ''pileup''
      \<and> buffers sample_obj ''control_lambda_bdg'' = Some ''lambda''"
    by (simp add: sample_obj_def)
  have r: "filtering_system (bdgcmp_argv sample_obj sample_temps) [] ?fs = Started ?r
      \<and> filtering_system [''cat'', temp_name sample_temps @ ''_ppois.bdg''] [] (files_after ?r)
          = Started ?r"
    by (simp add: filtering_system_def)
  have q: "buffers (sample_obj\<lparr>buffers := Map.empty\<rparr>) ''treat_pileup_bdg'' = None
        \<or> buffers (sample_obj\<lparr>buffers := Map.empty\<rparr>) ''control_lambda_bdg'' = None"
    by simp
  note a = bdgcmp_precondition_and_effect
    [where s = sample_obj and tp = "''pileup''" and cl = "''lambda''" and sys = filtering_system
       and t = sample_temps and w = empty_world and ?r1.0 = ?r and ?r2.0 = ?r]
  note b = bdgcmp_precondition_and_effect
    [where s = "sample_obj\<lparr>buffers := Map.empty\<rparr>" and sys = filtering_system
       and t = sample_temps and w = empty_world]
  from a [THEN conjunct2, THEN mp, OF p, THEN conjunct2, THEN conjunct2, THEN mp, OF r]
  have "bdgcmp filtering_system sample_temps sample_obj empty_world =
     Returns (sample_obj\<lparr>output_extensions := output_extensions sample_obj @ [''ppois.bdg''],
                buffers := (buffers sample_obj)(''ppois_bdg'' \<mapsto> ''filtered'')\<rparr>)
       (empty_world\<lparr>files := release_temps sample_temps ?fs,
          trace := trace empty_world @ [bdgcmp_argv sample_obj sample_temps,
             [''cat'', temp_name sample_temps @ ''_ppois.bdg'']]\<rparr>)"
    by simp
  moreover have "release_temps sample_temps ?fs = Map.empty"
    by (auto simp: release_temps_def scratch_files_def sample_temps_def empty_world_def fun_eq_iff)
  moreover have "bdgcmp_argv sample_obj sample_temps =
       [''macs2'', ''bdgcmp'', ''-t'', ''/tmp/a'', ''-c'', ''/tmp/b'', ''-m'', ''ppois'',
        ''--o-prefix'', ''/tmp/d/n'', ''-p'', ''0.00001'']"
    "temp_name sample_temps @ ''_ppois.bdg'' = ''/tmp/d/n_ppois.bdg''"
    by (simp_all add: bdgcmp_argv_def sample_obj_def sample_temps_def temp_name_def)
  moreover have "empty_world\<lparr>files := Map.empty\<rparr> = empty_world" "trace empty_world = []"
    by (simp_all add: empty_world_def)
  moreover from b [THEN conjunct1, THEN mp, OF q]
  have "raised (bdgcmp filtering_system sample_temps (sample_obj\<lparr>buffers := Map.empty\<rparr>) empty_world)
       = Some AttributeError" by simp
  moreover from d [THEN conjunct2, THEN mp, OF p, THEN conjunct1, THEN mp, OF m]
  have "raised (bdgcmp macs2_missing sample_temps sample_obj empty_world) = Some FileNotFoundError"
    by simp
  moreover from e [THEN conjunct2, THEN mp, OF p, THEN conjunct2, THEN conjunct1, THEN mp, OF c]
  have "raised (bdgcmp cat_forbidden sample_temps sample_obj empty_world) = Some PermissionError"
    by simp
  ultimately show ?thesis by simp
qed

text \<open>
  The claim as it was written fails where \<^verbatim>\<open>macs2_path\<close> names no program:
  \<^verbatim>\<open>__init__\<close> tests it for truthiness only. The sample object holds both buffers, and
  the step raises \<^verbatim>\<open>FileNotFoundError\<close> and sets no buffer.
\<close>

theorem bdgcmp_unstartable_program:
  "buffers sample_obj ''treat_pileup_bdg'' = Some ''pileup''
   \<and> buffers sample_obj ''control_lambda_bdg'' = Some ''lambda''
   \<and> raised (bdgcmp macs2_missing sample_temps sample_obj empty_world) = Some FileNotFoundError
   \<and> buffers (obj_of (bdgcmp macs2_missing sample_temps sample_obj empty_world)) ''ppois_bdg'' = None"
proof -
  have p: "buffers sample_obj ''treat_pileup_bdg'' = Some ''pileup''"
    "buffers sample_obj ''control_lambda_bdg'' = Some ''lambda''"
    "buffers sample_obj ''ppois_bdg'' = None"
    by (simp_all add: sample_obj_def)
  have "macs2_missing (bdgcmp_argv sample_obj sample_temps) []
          (scratch_files sample_temps (files empty_world) ''pileup'' ''lambda'') = Failed FileNotFoundError"
    by (simp add: macs2_missing_def bdgcmp_argv_def sample_obj_def)
  from bdgcmp_macs2_fails [where sys = macs2_missing, OF p(1) p(2) this] p
  show ?thesis by simp
qed

subsection \<open>The exit status\<close>











subsection \<open>The inputs stay as loaded\<close>

lemma obj_of_bdgcmp_inputs:
  "treatment_bam (obj_of (bdgcmp sys t s w)) = treatment_bam s
   \<and> control_bam (obj_of (bdgcmp sys t s w)) = control_bam s"
  by (simp add: bdgcmp_def Let_def split: option.splits prod.splits sum.splits)

lemma obj_of_write_inputs:
  "treatment_bam (obj_of (write_out s w prefix extensions)) = treatment_bam s
   \<and> control_bam (obj_of (write_out s w prefix extensions)) = control_bam s"
  by (simp add: write_out_def split: option.splits prod.splits)

lemma obj_of_exit: "obj_of (exit s w) = s"
  by (simp add: exit_def split: prod.splits option.splits)

text \<open>
  Claim C8 (the treatment and control bytes never change). After \<^verbatim>\<open>call_peaks\<close>,
  \<^verbatim>\<open>bdgcmp\<close>, \<^verbatim>\<open>remove_blacklisted_peaks\<close>, \<^verbatim>\<open>write\<close>, \<^verbatim>\<open>__enter__\<close> and
  \<^verbatim>\<open>__exit__\<close> with its clean-up, returning or raising, \<^verbatim>\<open>treatment_bam\<close> and
  \<^verbatim>\<open>control_bam\<close> are what they were before.
\<close>

theorem inputs_immutable:
  "treatment_bam (obj_of (call_peaks sys t s w sample_name)) = treatment_bam s
   \<and> control_bam (obj_of (call_peaks sys t s w sample_name)) = control_bam s
   \<and> treatment_bam (obj_of (bdgcmp sys t s w)) = treatment_bam s
   \<and> control_bam (obj_of (bdgcmp sys t s w)) = control_bam s
   \<and> treatment_bam (obj_of (remove_blacklisted_peaks sys s w blacklist_path)) = treatment_bam s
   \<and> control_bam (obj_of (remove_blacklisted_peaks sys s w blacklist_path)) = control_bam s
   \<and> treatment_bam (obj_of (write_out s w prefix extensions)) = treatment_bam s
   \<and> control_bam (obj_of (write_out s w prefix extensions)) = control_bam s
   \<and> treatment_bam (enter s) = treatment_bam s
   \<and> control_bam (enter s) = control_bam s
   \<and> treatment_bam (obj_of (exit s w)) = treatment_bam s
   \<and> control_bam (obj_of (exit s w)) = control_bam s"
  by (simp add: obj_of_remove_blacklisted_peaks call_peaks_raises obj_of_bdgcmp_inputs obj_of_write_inputs obj_of_exit enter_def)

subsection \<open>write and the clean-up of __exit__\<close>

lemma out_path_inj: "out_path prefix e = out_path prefix e' \<longleftrightarrow> e = e'"
  by (simp add: out_path_def)

lemma out_path_nonempty: "out_path prefix e \<noteq> []"
  by (simp add: out_path_def)

lemma clean_up_twice: "clean_up w p = Inr w' \<Longrightarrow> clean_up w' p = Inr w'"
  by (auto simp: clean_up_def split: if_splits option.splits)

lemma clean_up_allowed:
  "no_remove w (out_path prefix e) = None \<Longrightarrow>
     clean_up w (out_path prefix e) = Inr (w\<lparr>files := (files w)(out_path prefix e := None)\<rparr>)"
proof (cases "files w (out_path prefix e)")
  case None
  then have "(files w)(out_path prefix e := None) = files w"
    by (simp add: fun_upd_idem)
  with None show ?thesis by (simp add: clean_up_def)
next
  case (Some b)
  assume "no_remove w (out_path prefix e) = None"
  with Some show ?thesis by (simp add: clean_up_def out_path_nonempty)
qed

lemma clean_up_all_allowed:
  "\<forall>ext \<in> set exts. no_remove w (out_path prefix ext) = None \<Longrightarrow>
     clean_up_all prefix exts w =
       (None, w\<lparr>files := (\<lambda>q. if q \<in> out_path prefix ` set exts then None else files w q)\<rparr>)"
proof (induction exts arbitrary: w)
  case Nil
  then show ?case by simp
next
  case (Cons x xs)
  let ?w = "w\<lparr>files := (files w)(out_path prefix x := None)\<rparr>"
  from Cons.prems have x: "clean_up w (out_path prefix x) = Inr ?w"
    by (simp add: clean_up_allowed)
  from Cons.prems have "\<forall>ext \<in> set xs. no_remove ?w (out_path prefix ext) = None"
    by simp
  from Cons.IH [OF this]
  have "clean_up_all prefix xs ?w =
       (None, ?w\<lparr>files := (\<lambda>q. if q \<in> out_path prefix ` set xs then None else files ?w q)\<rparr>)" .
  moreover have "(\<lambda>q. if q \<in> out_path prefix ` set xs then None else files ?w q)
      = (\<lambda>q. if q \<in> out_path prefix ` set (x # xs) then None else files w q)"
    by (auto simp: fun_eq_iff)
  ultimately show ?case using x by simp
qed

lemma write_each_other:
  "write_each s w prefix exts fs = (None, fs') \<Longrightarrow> q \<notin> out_path prefix ` set exts \<Longrightarrow> fs' q = fs q"
proof (induction exts arbitrary: fs)
  case Nil
  then show ?case by simp
next
  case (Cons x xs)
  from Cons.prems(1) obtain b where
    rest: "write_each s w prefix xs (fs(out_path prefix x \<mapsto> b)) = (None, fs')"
    by (auto simp: Let_def split: option.splits attr.splits)
  from Cons.prems(2) have "q \<noteq> out_path prefix x" and "q \<notin> out_path prefix ` set xs"
    by auto
  with Cons.IH [OF rest] show ?case by simp
qed

lemma write_each_written:
  "write_each s w prefix exts fs = (None, fs') \<Longrightarrow> e \<in> set exts \<Longrightarrow>
     no_write w (out_path prefix e) = None
   \<and> (\<exists>b. getattr s (attr_name e) = Some (BytesAttr b) \<and> fs' (out_path prefix e) = Some b)"
proof (induction exts arbitrary: fs)
  case Nil
  then show ?case by simp
next
  case (Cons x xs)
  from Cons.prems(1) obtain b where nw: "no_write w (out_path prefix x) = None"
    and b: "getattr s (attr_name x) = Some (BytesAttr b)"
    and rest: "write_each s w prefix xs (fs(out_path prefix x \<mapsto> b)) = (None, fs')"
    by (auto simp: Let_def split: option.splits attr.splits)
  show ?case
  proof (cases "e \<in> set xs")
    case True
    from Cons.IH [OF rest True] show ?thesis .
  next
    case False
    with Cons.prems(2) have ex: "e = x" by simp
    from False have "out_path prefix e \<notin> out_path prefix ` set xs"
      by (auto simp: out_path_inj)
    from write_each_other [OF rest this] nw b ex show ?thesis by simp
  qed
qed

lemma write_out_Returns:
  "write_out s w prefix extensions = Returns s' w' \<Longrightarrow>
     s' = s\<lparr>cleanup_prefix := Some prefix\<rparr>
   \<and> write_each s w prefix (if extensions \<noteq> [] then extensions else output_extensions s) (files w)
       = (None, files w')
   \<and> w' = w\<lparr>files := files w'\<rparr>"
  by (auto simp: write_out_def split: prod.splits option.splits)

text \<open>
  Claim C5, as amended (write, then the exit of a managed context). When \<^verbatim>\<open>write\<close>
  returns inside a managed context, the prefix is recorded and nothing else of the object
  has changed; every selected extension (all
  output extensions when none is given) names an attribute that holds bytes, and these
  bytes are in the file \<^verbatim>\<open>prefix_extension\<close>; no other file has changed. If the operating
  system refuses no removal, the exit that follows returns and removes the files
  \<^verbatim>\<open>prefix_extension\<close> of all output extensions and nothing else, which are exactly the
  files written when \<^verbatim>\<open>write\<close> was given no extensions. A clean-up of a path that went
  through goes through again and changes nothing.
\<close>

theorem write_then_exit:
  assumes "cleans_up s" and "write_out s w prefix extensions = Returns s' w'"
  shows "cleanup_prefix s' = Some prefix
   \<and> (\<forall>ext \<in> set (if extensions \<noteq> [] then extensions else output_extensions s).
        \<exists>b. getattr s (attr_name ext) = Some (BytesAttr b)
           \<and> files w' (out_path prefix ext) = Some b)
   \<and> (\<forall>q. q \<notin> out_path prefix ` set (if extensions \<noteq> [] then extensions else output_extensions s)
        \<longrightarrow> files w' q = files w q)
   \<and> ((\<forall>ext \<in> set (output_extensions s). no_remove w (out_path prefix ext) = None) \<longrightarrow>
        exit s' w' =
          Returns s' (w'\<lparr>files := (\<lambda>q. if q \<in> out_path prefix ` set (output_extensions s)
                                      then None else files w' q)\<rparr>)
      \<and> (extensions = [] \<longrightarrow>
           files (world_of (exit s' w'))
             = (\<lambda>q. if q \<in> out_path prefix ` set (output_extensions s) then None else files w q)))
   \<and> (clean_up w0 p = Inr w1 \<longrightarrow> clean_up w1 p = Inr w1)
   \<and> s' = s\<lparr>cleanup_prefix := Some prefix\<rparr>
   \<and> w' = w\<lparr>files := files w'\<rparr>"
proof -
  let ?sel = "if extensions \<noteq> [] then extensions else output_extensions s"
  let ?gone = "\<lambda>fs. (\<lambda>q. if q \<in> out_path prefix ` set (output_extensions s) then None else fs q)"
  from write_out_Returns [OF assms(2)]
  have s': "s' = s\<lparr>cleanup_prefix := Some prefix\<rparr>"
    and we: "write_each s w prefix ?sel (files w) = (None, files w')"
    and w': "w' = w\<lparr>files := files w'\<rparr>"
    by simp_all
  have 1: "cleanup_prefix s' = Some prefix" by (simp add: s')
  have 2: "\<forall>ext \<in> set ?sel. \<exists>b. getattr s (attr_name ext) = Some (BytesAttr b)
           \<and> files w' (out_path prefix ext) = Some b"
    using write_each_written [OF we] by blast
  have 3: "\<forall>q. q \<notin> out_path prefix ` set ?sel \<longrightarrow> files w' q = files w q"
    using write_each_other [OF we] by blast
  have 4: "(\<forall>ext \<in> set (output_extensions s). no_remove w (out_path prefix ext) = None) \<longrightarrow>
        exit s' w' = Returns s' (w'\<lparr>files := ?gone (files w')\<rparr>)
      \<and> (extensions = [] \<longrightarrow> files (world_of (exit s' w')) = ?gone (files w))"
  proof (intro impI conjI)
    assume "\<forall>ext \<in> set (output_extensions s). no_remove w (out_path prefix ext) = None"
    then have "\<forall>ext \<in> set (output_extensions s). no_remove w' (out_path prefix ext) = None"
      by (subst w') simp
    from clean_up_all_allowed [OF this]
    show e: "exit s' w' = Returns s' (w'\<lparr>files := ?gone (files w')\<rparr>)"
      using assms(1) by (simp add: exit_def s' str_prefix_def)
    assume "extensions = []"
    with 3 have "?gone (files w') = ?gone (files w)"
      by (auto simp: fun_eq_iff)
    with e show "files (world_of (exit s' w')) = ?gone (files w)" by simp
  qed
  have 5: "clean_up w0 p = Inr w1 \<longrightarrow> clean_up w1 p = Inr w1"
    by (simp add: clean_up_twice)
  from 1 2 3 4 5 s' w' show ?thesis by (intro conjI)
qed

lemma write_sample:
  "write_out (enter sample_obj) sample_world ''out'' [''peaks.xls''] =
     Returns (enter sample_obj\<lparr>cleanup_prefix := Some ''out''\<rparr>)
       (sample_world\<lparr>files := (files sample_world)(''out_peaks.xls'' \<mapsto> ''xls'')\<rparr>)"
  by (simp add: write_out_def sample_obj_def sample_world_def enter_def attr_name_def out_path_def
      getattr_def instance_attributes_def)

text \<open>
  The claim as it was written fails when extensions are selected: \<^verbatim>\<open>write\<close> with the
  one extension \<^verbatim>\<open>peaks.xls\<close> leaves the older file \<^verbatim>\<open>out_summits.bed\<close> alone, and the
  exit removes it.
\<close>

theorem exit_removes_unwritten_file:
  "raised (write_out (enter sample_obj) sample_world ''out'' [''peaks.xls'']) = None
   \<and> files sample_world ''out_summits.bed'' = Some ''old''
   \<and> files (world_of (write_out (enter sample_obj) sample_world ''out'' [''peaks.xls'']))
        ''out_summits.bed'' = Some ''old''
   \<and> files (world_of (exit (obj_of (write_out (enter sample_obj) sample_world ''out'' [''peaks.xls'']))
        (world_of (write_out (enter sample_obj) sample_world ''out'' [''peaks.xls'']))))
        ''out_summits.bed'' = None"
  by (simp add: write_sample)
     (simp add: exit_def enter_def sample_obj_def sample_world_def clean_up_def out_path_def
        str_prefix_def)

text \<open>On the sample object in an empty world: the files are written, and gone after the exit.\<close>

theorem write_then_exit_witness:
  "files (world_of (write_out (enter sample_obj) empty_world ''out'' [])) ''out_peaks.narrowPeak''
      = Some ''narrow''
   \<and> files (world_of (exit (obj_of (write_out (enter sample_obj) empty_world ''out'' []))
        (world_of (write_out (enter sample_obj) empty_world ''out'' [])))) = Map.empty"
proof -
  let ?r = "write_out (enter sample_obj) empty_world ''out'' []"
  have r: "?r = Returns (obj_of ?r) (world_of ?r)"
    by (simp add: write_out_def sample_obj_def empty_world_def enter_def attr_name_def
        out_path_def getattr_def instance_attributes_def)
  have c: "cleans_up (enter sample_obj)" by (simp add: enter_def)
  have n: "''peaks.narrowPeak'' \<in> set (output_extensions (enter sample_obj))"
     "getattr (enter sample_obj) (attr_name ''peaks.narrowPeak'') = Some (BytesAttr ''narrow'')"
     "out_path ''out'' ''peaks.narrowPeak'' = ''out_peaks.narrowPeak''"
    by (simp_all add: enter_def sample_obj_def attr_name_def out_path_def getattr_def
        instance_attributes_def)
  have a: "\<forall>ext \<in> set (output_extensions (enter sample_obj)).
      no_remove empty_world (out_path ''out'' ext) = None"
    by (simp add: empty_world_def)
  note f = write_then_exit [OF c r, of empty_world "[]" empty_world]
  from f [THEN conjunct2, THEN conjunct1] n(1)
  have "\<exists>b. getattr (enter sample_obj) (attr_name ''peaks.narrowPeak'') = Some (BytesAttr b)
      \<and> files (world_of ?r) (out_path ''out'' ''peaks.narrowPeak'') = Some b"
    by simp
  with n have 1: "files (world_of ?r) ''out_peaks.narrowPeak'' = Some ''narrow''"
    by auto
  from f [THEN conjunct2, THEN conjunct2, THEN conjunct2, THEN conjunct1, THEN mp, OF a,
      THEN conjunct2]
  have "files (world_of (exit (obj_of ?r) (world_of ?r)))
          = (\<lambda>q. if q \<in> out_path ''out'' ` set (output_extensions (enter sample_obj)) then None
                 else files empty_world q)"
    by simp
  then have 2: "files (world_of (exit (obj_of ?r) (world_of ?r))) = Map.empty"
    by (simp add: empty_world_def fun_eq_iff)
  from 1 2 show ?thesis by simp
qed

text \<open>
  An extension may name an attribute that is no output buffer: \<^verbatim>\<open>write\<close> with the
  extension \<^verbatim>\<open>treatment.bam\<close> returns and writes the treatment, with \<^verbatim>\<open>shift\<close> it raises
  \<^verbatim>\<open>TypeError\<close>, with an unknown name \<^verbatim>\<open>AttributeError\<close>, both over an empty file; and a
  prefix in a directory that does not exist raises before anything is written.
\<close>

lemma write_other_attributes:
  "write_out sample_obj empty_world ''out'' [''treatment.bam''] =
     Returns (sample_obj\<lparr>cleanup_prefix := Some ''out''\<rparr>)
       (empty_world\<lparr>files := [''out_treatment.bam'' \<mapsto> ''BAM'']\<rparr>)"
  "write_out sample_obj empty_world ''out'' [''shift''] =
     Raises TypeError sample_obj (empty_world\<lparr>files := [''out_shift'' \<mapsto> []]\<rparr>)"
  "write_out sample_obj empty_world ''out'' [''nothing''] =
     Raises AttributeError sample_obj (empty_world\<lparr>files := [''out_nothing'' \<mapsto> []]\<rparr>)"
  "write_out sample_obj (empty_world\<lparr>no_write := (\<lambda>p. Some FileNotFoundError)\<rparr>) ''nowhere/out'' [] =
     Raises FileNotFoundError sample_obj (empty_world\<lparr>no_write := (\<lambda>p. Some FileNotFoundError)\<rparr>)"
  by (simp_all add: write_out_def sample_obj_def empty_world_def attr_name_def out_path_def
      getattr_def instance_attributes_def class_attributes_def)

end
